theory Spec2Isabelle
  imports Complex_Main
begin

section \<open>Data of the vehicle visualization wrapper\<close>

text \<open>
  The theory embeds \<^verbatim>\<open>src/chrono_vehicle/utils/ChVehicleIrrApp.cpp\<close>: the event
  receiver \<^verbatim>\<open>ChCameraEventReceiver::OnEvent\<close>, the constructor of
  \<^verbatim>\<open>ChVehicleIrrApp\<close>, \<^verbatim>\<open>EnableSound\<close>, \<^verbatim>\<open>SetChaseCamera\<close> and
  \<^verbatim>\<open>Advance\<close>.

  Numbers: every \<^verbatim>\<open>double\<close> of the source is a \<^typ>\<open>real\<close> here, so rounding,
  infinities and NaN are outside the model; the casts \<^verbatim>\<open>(f32)\<close> and
  \<^verbatim>\<open>(irrklang::ik_f32)\<close> are a function taken as a parameter.
\<close>

datatype ChVector = ChVector real real real

datatype vector3df = vector3df real real real

text \<open>
  The enumeration \<^verbatim>\<open>utils::ChChaseCamera::State\<close>: the four enumerators the source
  names (lines 61 to 70).
\<close>

datatype State = Chase | Follow | Track | Inside

text \<open>
  Irrlicht's \<^verbatim>\<open>EEVENT_TYPE\<close> and \<^verbatim>\<open>EKEY_CODE\<close>: the enumerators the source names,
  and one constructor for each of the others.
\<close>

datatype EEVENT_TYPE =
  EET_GUI_EVENT | EET_MOUSE_INPUT_EVENT | EET_KEY_INPUT_EVENT | EET_OTHER_EVENT nat

datatype EKEY_CODE =
  KEY_LEFT | KEY_UP | KEY_RIGHT | KEY_DOWN
  | KEY_KEY_1 | KEY_KEY_2 | KEY_KEY_3 | KEY_KEY_4 | KEY_KEY_V
  | KEY_OTHER nat

record SKeyInput =
  Key :: EKEY_CODE
  PressedDown :: bool

record SEvent =
  EventType :: EEVENT_TYPE
  KeyInput :: SKeyInput

record ICameraSceneNode =
  UpVector :: vector3df
  Position :: vector3df
  Target :: vector3df

text \<open>The sound \<^verbatim>\<open>irrklang::ISound\<close>, as far as the source writes it.\<close>

record ISound =
  IsPaused :: bool
  PlaybackSpeed :: real

text \<open>
  The collaborators whose code is outside this file are parameters: the vehicle
  (\<^verbatim>\<open>ChVehicle\<close>), the powertrain, the chase camera (\<^verbatim>\<open>utils::ChChaseCamera\<close>, of
  state \<open>'cam\<close>), the narrowing cast to \<^verbatim>\<open>f32\<close>, the constant \<^verbatim>\<open>CH_C_2PI\<close> and
  the configuration macro \<^verbatim>\<open>CHRONO_IRRKLANG\<close>. The camera keeps a pointer to the
  chassis body; every camera method that changes the camera receives the body as
  it is at the moment of the call.
\<close>

record ('cam, 'car, 'body, 'csys, 'pt) externals =
  GetChassis :: "'car \<Rightarrow> 'body"
  GetLocalDriverCoordsys :: "'car \<Rightarrow> 'csys"
  LogConstraintViolations :: "'car \<Rightarrow> 'car"
  GetMotorSpeed :: "'pt \<Rightarrow> real"
  ChChaseCamera :: "'body \<Rightarrow> 'cam"
  Initialize :: "'body \<Rightarrow> ChVector \<Rightarrow> 'csys \<Rightarrow> real \<Rightarrow> real \<Rightarrow> 'cam \<Rightarrow> 'cam"
  Update :: "'body \<Rightarrow> real \<Rightarrow> 'cam \<Rightarrow> 'cam"
  Zoom :: "'body \<Rightarrow> int \<Rightarrow> 'cam \<Rightarrow> 'cam"
  Turn :: "'body \<Rightarrow> int \<Rightarrow> 'cam \<Rightarrow> 'cam"
  SetState :: "'body \<Rightarrow> State \<Rightarrow> 'cam \<Rightarrow> 'cam"
  GetCameraPos :: "'cam \<Rightarrow> ChVector"
  GetTargetPos :: "'cam \<Rightarrow> ChVector"
  GetStateName :: "'cam \<Rightarrow> string"
  f32 :: "real \<Rightarrow> real"
  CH_C_2PI :: real
  CHRONO_IRRKLANG :: bool

text \<open>
  The members of \<^verbatim>\<open>ChVehicleIrrApp\<close> the source initializes, the active camera node
  of the scene manager, and the two sound members (\<open>None\<close> is the null pointer).
\<close>

record ('cam, 'car, 'pt) ChVehicleIrrApp =
  m_car :: 'car
  m_powertrain :: 'pt
  m_camera :: 'cam
  m_stepsize :: real
  m_HUD_x :: int
  m_HUD_y :: int
  m_renderGrid :: bool
  m_renderLinks :: bool
  m_renderSprings :: bool
  m_renderStats :: bool
  m_gridHeight :: real
  camera :: ICameraSceneNode
  m_sound_engine :: bool
  m_car_sound :: "ISound option"

section \<open>The event receiver\<close>

text \<open>
  \<^verbatim>\<open>ChCameraEventReceiver::OnEvent\<close> (lines 38 to 79). The result is the returned
  flag and the application after the call.
\<close>

definition OnEvent ::
  "('cam, 'car, 'body, 'csys, 'pt) externals \<Rightarrow> SEvent \<Rightarrow> ('cam, 'car, 'pt) ChVehicleIrrApp
    \<Rightarrow> bool \<times> ('cam, 'car, 'pt) ChVehicleIrrApp" where
  "OnEvent ext event m_app =
    (let chassis = GetChassis ext (m_car m_app) in
     if EventType event \<noteq> EET_KEY_INPUT_EVENT then (False, m_app)
     else if PressedDown (KeyInput event) then
       (case Key (KeyInput event) of
          KEY_DOWN \<Rightarrow> (True, m_app\<lparr>m_camera := Zoom ext chassis 1 (m_camera m_app)\<rparr>)
        | KEY_UP \<Rightarrow> (True, m_app\<lparr>m_camera := Zoom ext chassis (- 1) (m_camera m_app)\<rparr>)
        | KEY_LEFT \<Rightarrow> (True, m_app\<lparr>m_camera := Turn ext chassis 1 (m_camera m_app)\<rparr>)
        | KEY_RIGHT \<Rightarrow> (True, m_app\<lparr>m_camera := Turn ext chassis (- 1) (m_camera m_app)\<rparr>)
        | _ \<Rightarrow> (False, m_app))
     else
       (case Key (KeyInput event) of
          KEY_KEY_1 \<Rightarrow> (True, m_app\<lparr>m_camera := SetState ext chassis Chase (m_camera m_app)\<rparr>)
        | KEY_KEY_2 \<Rightarrow> (True, m_app\<lparr>m_camera := SetState ext chassis Follow (m_camera m_app)\<rparr>)
        | KEY_KEY_3 \<Rightarrow> (True, m_app\<lparr>m_camera := SetState ext chassis Track (m_camera m_app)\<rparr>)
        | KEY_KEY_4 \<Rightarrow> (True, m_app\<lparr>m_camera := SetState ext chassis Inside (m_camera m_app)\<rparr>)
        | KEY_KEY_V \<Rightarrow> (True, m_app\<lparr>m_car := LogConstraintViolations ext (m_car m_app)\<rparr>)
        | _ \<Rightarrow> (False, m_app)))"

section \<open>Construction and configuration\<close>

definition to_vector3df :: "(real \<Rightarrow> real) \<Rightarrow> ChVector \<Rightarrow> vector3df" where
  "to_vector3df cast v = (case v of ChVector a b c \<Rightarrow> vector3df (cast a) (cast b) (cast c))"

text \<open>
  The constructor (lines 84 to 121). The window title and size go to the base class
  and are left out; the camera node is created at the origin and then given its up
  vector, position and target.
\<close>

definition ChVehicleIrrApp_new ::
  "('cam, 'car, 'body, 'csys, 'pt) externals \<Rightarrow> 'car \<Rightarrow> 'pt \<Rightarrow> ('cam, 'car, 'pt) ChVehicleIrrApp" where
  "ChVehicleIrrApp_new ext car powertrain =
    (let cam = Initialize ext (GetChassis ext car) (ChVector 0 0 1) (GetLocalDriverCoordsys ext car)
                 6.0 0.5 (ChChaseCamera ext (GetChassis ext car));
         cam_pos = GetCameraPos ext cam;
         cam_target = GetTargetPos ext cam;
         node = \<lparr>UpVector = vector3df 0 0 0, Position = vector3df 0 0 0, Target = vector3df 0 0 0\<rparr>;
         node = node\<lparr>UpVector := vector3df 0 0 1\<rparr>;
         node = node\<lparr>Position := to_vector3df (f32 ext) cam_pos\<rparr>;
         node = node\<lparr>Target := to_vector3df (f32 ext) cam_target\<rparr>
     in \<lparr>m_car = car, m_powertrain = powertrain, m_camera = cam, m_stepsize = 1 / 1000,
         m_HUD_x = 740, m_HUD_y = 20, m_renderGrid = True, m_renderLinks = True,
         m_renderSprings = True, m_renderStats = True, m_gridHeight = 2 / 100,
         camera = node, m_sound_engine = False, m_car_sound = None\<rparr>)"

text \<open>
  \<^verbatim>\<open>EnableSound\<close> (lines 132 to 150); \<open>device\<close> says whether
  \<^verbatim>\<open>createIrrKlangDevice\<close> returned an engine. The sound is started and then paused.
\<close>

definition EnableSound ::
  "('cam, 'car, 'body, 'csys, 'pt) externals \<Rightarrow> bool \<Rightarrow> bool \<Rightarrow> ('cam, 'car, 'pt) ChVehicleIrrApp
    \<Rightarrow> ('cam, 'car, 'pt) ChVehicleIrrApp" where
  "EnableSound ext device sound app =
    (if CHRONO_IRRKLANG ext then
       (if sound then
          (if device then
             app\<lparr>m_sound_engine := True,
                 m_car_sound := Some \<lparr>IsPaused = True, PlaybackSpeed = 1\<rparr>\<rparr>
           else app\<lparr>m_sound_engine := False\<rparr>)
        else app\<lparr>m_sound_engine := False, m_car_sound := None\<rparr>)
     else app)"

text \<open>\<^verbatim>\<open>SetChaseCamera\<close> (lines 171 to 175).\<close>

definition SetChaseCamera ::
  "('cam, 'car, 'body, 'csys, 'pt) externals \<Rightarrow> ChVector \<Rightarrow> real \<Rightarrow> real
    \<Rightarrow> ('cam, 'car, 'pt) ChVehicleIrrApp \<Rightarrow> ('cam, 'car, 'pt) ChVehicleIrrApp" where
  "SetChaseCamera ext ptOnChassis chaseDist chaseHeight app =
    app\<lparr>m_camera := Initialize ext (GetChassis ext (m_car app)) ptOnChassis
                       (GetLocalDriverCoordsys ext (m_car app)) chaseDist chaseHeight (m_camera app)\<rparr>"

section \<open>Advancing the chase camera\<close>

text \<open>
  The loop of \<^verbatim>\<open>Advance\<close> (lines 185 to 190), with \<open>upd\<close> the camera's
  \<^verbatim>\<open>Update\<close> on the current chassis body:
  \<^verbatim>\<open>
    double t = 0;
    while (t < step) {
        double h = std::min<>(m_stepsize, step - t);
        m_camera.Update(step);
        t += h;
    }
  \<close>
  The call passes \<^verbatim>\<open>step\<close>; \<^verbatim>\<open>h\<close> only moves \<^verbatim>\<open>t\<close>. The loop need not end (a
  step size that is not positive never moves \<^verbatim>\<open>t\<close>), so not returning is \<open>None\<close>.
\<close>

partial_function (option) Advance_loop ::
  "(real \<Rightarrow> 'cam \<Rightarrow> 'cam) \<Rightarrow> real \<Rightarrow> real \<Rightarrow> real \<Rightarrow> 'cam \<Rightarrow> 'cam option" where
  "Advance_loop upd stepsize step t cam =
    (if t < step then
       (let h = min stepsize (step - t) in
        Advance_loop upd stepsize step (t + h) (upd step cam))
     else Some cam)"

text \<open>
  The block under \<^verbatim>\<open>CHRONO_IRRKLANG\<close> (lines 201 to 218). The counter
  \<^verbatim>\<open>stepsbetweensound\<close> is a static local of the function: one variable for the
  process, kept beside the application objects and not in them. It is an \<^verbatim>\<open>int\<close>;
  from its initial 0 it stays between 0 and 20, so it is modelled without wrap-around.
\<close>

definition update_sound ::
  "('cam, 'car, 'body, 'csys, 'pt) externals \<Rightarrow> int \<times> ('cam, 'car, 'pt) ChVehicleIrrApp
    \<Rightarrow> int \<times> ('cam, 'car, 'pt) ChVehicleIrrApp" where
  "update_sound ext s =
    (case s of (stepsbetweensound, app) \<Rightarrow>
      (if CHRONO_IRRKLANG ext then
         (case m_car_sound app of
            None \<Rightarrow> (stepsbetweensound, app)
          | Some snd0 \<Rightarrow>
              (let stepsbetweensound = stepsbetweensound + 1;
                   engine_rpm = GetMotorSpeed ext (m_powertrain app) * 60 / CH_C_2PI ext;
                   soundspeed = engine_rpm / 8000;
                   soundspeed = (if soundspeed < 1 / 10 then 1 / 10 else soundspeed)
               in if stepsbetweensound > 20 then
                    (let snd1 = (if IsPaused snd0 then snd0\<lparr>IsPaused := False\<rparr> else snd0);
                         snd2 = snd1\<lparr>PlaybackSpeed := f32 ext soundspeed\<rparr>
                     in (0, app\<lparr>m_car_sound := Some snd2\<rparr>))
                  else (stepsbetweensound, app)))
       else (stepsbetweensound, app)))"

text \<open>
  \<^verbatim>\<open>Advance\<close> (lines 182 to 219) on the pair of the static counter and the
  application: the loop, the copy of the camera's position and target to the active
  camera node, the sound block.
\<close>

definition Advance ::
  "('cam, 'car, 'body, 'csys, 'pt) externals \<Rightarrow> real \<Rightarrow> int \<times> ('cam, 'car, 'pt) ChVehicleIrrApp
    \<Rightarrow> (int \<times> ('cam, 'car, 'pt) ChVehicleIrrApp) option" where
  "Advance ext step s =
    (case s of (stepsbetweensound, app) \<Rightarrow>
      (case Advance_loop (Update ext (GetChassis ext (m_car app))) (m_stepsize app) step 0
              (m_camera app) of
         None \<Rightarrow> None
       | Some cam \<Rightarrow>
           (let cam_pos = GetCameraPos ext cam;
                cam_target = GetTargetPos ext cam;
                node = camera app;
                node = node\<lparr>Position := to_vector3df (f32 ext) cam_pos\<rparr>;
                node = node\<lparr>Target := to_vector3df (f32 ext) cam_target\<rparr>
            in Some (update_sound ext
                 (stepsbetweensound, app\<lparr>m_camera := cam, camera := node\<rparr>)))))"

text \<open>
  A sequence of calls of \<^verbatim>\<open>Advance\<close>, one per frame: before each call the host has
  left the vehicle (and with it the chassis body the camera tracks) in the state
  given for that frame. The result lists, call by call, the camera position and target
  of the controller and the position and target given to the camera node.
\<close>

fun Advance_run ::
  "('cam, 'car, 'body, 'csys, 'pt) externals \<Rightarrow> (real \<times> 'car) list
    \<Rightarrow> int \<times> ('cam, 'car, 'pt) ChVehicleIrrApp
    \<Rightarrow> (ChVector \<times> ChVector \<times> vector3df \<times> vector3df) list option" where
  "Advance_run ext [] s = Some []"
| "Advance_run ext (frame # rest) s =
    (case Advance ext (fst frame) (fst s, (snd s)\<lparr>m_car := snd frame\<rparr>) of
       None \<Rightarrow> None
     | Some s' \<Rightarrow>
         (case Advance_run ext rest s' of
            None \<Rightarrow> None
          | Some out \<Rightarrow>
              Some ((GetCameraPos ext (m_camera (snd s')), GetTargetPos ext (m_camera (snd s')),
                     Position (camera (snd s')), Target (camera (snd s'))) # out)))"

section \<open>The camera mode in the HUD\<close>

text \<open>
  The first text box of \<^verbatim>\<open>renderStats\<close> (line 312): the text \<^verbatim>\<open>"Camera mode: %s"\<close>
  with the camera's state name. The buffer of 100 characters it is printed into is not
  modelled.
\<close>

definition renderStats_camera_mode ::
  "('cam, 'car, 'body, 'csys, 'pt) externals \<Rightarrow> ('cam, 'car, 'pt) ChVehicleIrrApp \<Rightarrow> string" where
  "renderStats_camera_mode ext app = ''Camera mode: '' @ GetStateName ext (m_camera app)"

section \<open>The sub-stepping rule in the specification's words\<close>

text \<open>
  The specification's rule for the same loop: the step is cut into increments no larger
  than the maximum sub-step and the camera is advanced by one increment per iteration.
  It differs from \<open>Advance_loop\<close> in the argument of the update only (\<open>h\<close> for
  \<open>step\<close>), and is here to be compared with it.
\<close>

partial_function (option) Advance_loop_substeps ::
  "(real \<Rightarrow> 'cam \<Rightarrow> 'cam) \<Rightarrow> real \<Rightarrow> real \<Rightarrow> real \<Rightarrow> 'cam \<Rightarrow> 'cam option" where
  "Advance_loop_substeps upd stepsize step t cam =
    (if t < step then
       (let h = min stepsize (step - t) in
        Advance_loop_substeps upd stepsize step (t + h) (upd h cam))
     else Some cam)"

section \<open>The chase camera in the specification's words\<close>

text \<open>
  Modelled from the spec: the class \<^verbatim>\<open>utils::ChChaseCamera\<close> (its \<^verbatim>\<open>SetState\<close>,
  \<^verbatim>\<open>GetStateName\<close>, \<^verbatim>\<open>Zoom\<close> and the zoom step of its \<^verbatim>\<open>Update\<close>) is not among the
  sources; only its callers are. The controller of the specification keeps the active
  mode, the chase distance and the accumulated zoom intent. The minimum distance and
  the distance one unit of intent is worth are configuration the specification leaves
  open; they are fields here.
\<close>

record ChaseCameraController =
  mode :: State
  distance :: real
  zoomIntent :: int
  minDistance :: real
  zoomStep :: real

text \<open>
  Modelled from the spec: \<^verbatim>\<open>SetState\<close> of the missing \<^verbatim>\<open>ChChaseCamera\<close>, an immediate
  and unconditional switch of the mode that leaves all other state as it is.
\<close>

definition SetState_spec :: "State \<Rightarrow> ChaseCameraController \<Rightarrow> ChaseCameraController" where
  "SetState_spec m c = c\<lparr>mode := m\<rparr>"

text \<open>
  Modelled from the spec: the label of a mode, for \<^verbatim>\<open>GetStateName\<close> of the missing
  \<^verbatim>\<open>ChChaseCamera\<close>. The specification asks for a human-readable label of the active
  mode and names the modes Chase, Follow, Track and Inside; the names are the labels.
\<close>

fun state_label :: "State \<Rightarrow> string" where
  "state_label Chase = ''Chase''"
| "state_label Follow = ''Follow''"
| "state_label Track = ''Track''"
| "state_label Inside = ''Inside''"

definition GetStateName_spec :: "ChaseCameraController \<Rightarrow> string" where
  "GetStateName_spec c = state_label (mode c)"

text \<open>
  Modelled from the spec: \<^verbatim>\<open>Zoom\<close> of the missing \<^verbatim>\<open>ChChaseCamera\<close>. A command adds
  its direction (+1 to zoom in, -1 to zoom out) to the zoom intent.
\<close>

definition Zoom_spec :: "int \<Rightarrow> ChaseCameraController \<Rightarrow> ChaseCameraController" where
  "Zoom_spec direction c = c\<lparr>zoomIntent := zoomIntent c + direction\<rparr>"

text \<open>
  Modelled from the spec: the zoom step of \<^verbatim>\<open>Update\<close> of the missing
  \<^verbatim>\<open>ChChaseCamera\<close>. The pending intent is applied to the distance, one step of
  adjustment per unit (a decrease for zoom-in intent, an increase for zoom-out intent),
  the result is clamped to the minimum distance, and the intent is reset.
\<close>

definition consume_zoom :: "ChaseCameraController \<Rightarrow> ChaseCameraController" where
  "consume_zoom c =
    c\<lparr>distance := max (minDistance c) (distance c - zoomStep c * of_int (zoomIntent c)),
      zoomIntent := 0\<rparr>"

text \<open>
  Collaborators whose camera is the controller of the specification: \<^verbatim>\<open>SetState\<close> and
  \<^verbatim>\<open>GetStateName\<close> are the two functions above, the rest is as given.
\<close>

definition with_spec_camera ::
  "(ChaseCameraController, 'car, 'body, 'csys, 'pt) externals
    \<Rightarrow> (ChaseCameraController, 'car, 'body, 'csys, 'pt) externals" where
  "with_spec_camera ext =
    ext\<lparr>SetState := (\<lambda>body. SetState_spec), GetStateName := GetStateName_spec\<rparr>"

section \<open>Collaborators that record their calls\<close>

text \<open>
  A camera that is the list of the calls it received, a vehicle that counts the calls
  of \<^verbatim>\<open>LogConstraintViolations\<close>, and a powertrain that is its motor speed: concrete
  collaborators on which the functions above can be run.
\<close>

datatype call =
  Initialize_call ChVector real real
  | Update_call real
  | Zoom_call int
  | Turn_call int
  | SetState_call State

definition recorder :: "(call list, nat, unit, unit, real) externals" where
  "recorder =
    \<lparr>GetChassis = (\<lambda>car. ()),
     GetLocalDriverCoordsys = (\<lambda>car. ()),
     LogConstraintViolations = Suc,
     GetMotorSpeed = (\<lambda>w. w),
     ChChaseCamera = (\<lambda>body. []),
     Initialize = (\<lambda>body p csys d h cam. cam @ [Initialize_call p d h]),
     Update = (\<lambda>body h cam. cam @ [Update_call h]),
     Zoom = (\<lambda>body v cam. cam @ [Zoom_call v]),
     Turn = (\<lambda>body v cam. cam @ [Turn_call v]),
     SetState = (\<lambda>body m cam. cam @ [SetState_call m]),
     GetCameraPos = (\<lambda>cam. ChVector (real (length cam)) 0 0),
     GetTargetPos = (\<lambda>cam. ChVector 0 0 1),
     GetStateName = (\<lambda>cam. []),
     f32 = (\<lambda>r. r),
     CH_C_2PI = 2 * pi,
     CHRONO_IRRKLANG = True\<rparr>"

text \<open>The application as the constructor leaves it, on the recording collaborators.\<close>

definition app0 :: "(call list, nat, real) ChVehicleIrrApp" where
  "app0 = ChVehicleIrrApp_new recorder 0 0"

text \<open>
  The same application after \<^verbatim>\<open>EnableSound(true)\<close> with a sound engine: it has a
  sound, paused.
\<close>

definition app_idle :: "(call list, nat, real) ChVehicleIrrApp" where
  "app_idle = EnableSound recorder True True app0"

text \<open>A keyboard event for a key, pressed down or released.\<close>

abbreviation key_event :: "EKEY_CODE \<Rightarrow> bool \<Rightarrow> SEvent" where
  "key_event k down \<equiv>
    \<lparr>EventType = EET_KEY_INPUT_EVENT, KeyInput = \<lparr>Key = k, PressedDown = down\<rparr>\<rparr>"

text \<open>
  A controller of the specification, as its scenario initializes it (distance 6), with
  a minimum distance of 1 and a zoom step of 2.
\<close>

definition controller0 :: ChaseCameraController where
  "controller0 =
    \<lparr>mode = Chase, distance = 6, zoomIntent = 0, minDistance = 1, zoomStep = 2\<rparr>"

text \<open>
  Collaborators with the controller of the specification as the camera, for running the
  event receiver on it: \<^verbatim>\<open>Initialize\<close> sets the distance, \<^verbatim>\<open>Update\<close> consumes the
  zoom intent; turning and the positions are not modelled.
\<close>

definition spec_collaborators :: "(ChaseCameraController, nat, unit, unit, real) externals" where
  "spec_collaborators =
    \<lparr>GetChassis = (\<lambda>car. ()),
     GetLocalDriverCoordsys = (\<lambda>car. ()),
     LogConstraintViolations = Suc,
     GetMotorSpeed = (\<lambda>w. w),
     ChChaseCamera = (\<lambda>body. controller0),
     Initialize = (\<lambda>body p csys d h cam. cam\<lparr>distance := d\<rparr>),
     Update = (\<lambda>body h cam. consume_zoom cam),
     Zoom = (\<lambda>body. Zoom_spec),
     Turn = (\<lambda>body v cam. cam),
     SetState = (\<lambda>body. SetState_spec),
     GetCameraPos = (\<lambda>cam. ChVector 0 0 0),
     GetTargetPos = (\<lambda>cam. ChVector 0 0 0),
     GetStateName = GetStateName_spec,
     f32 = (\<lambda>r. r),
     CH_C_2PI = 2 * pi,
     CHRONO_IRRKLANG = False\<rparr>"

section \<open>Facts about the loop\<close>

lemma Advance_loop_done: "\<not> t < step \<Longrightarrow> Advance_loop upd stepsize step t cam = Some cam"
  by (subst Advance_loop.simps) simp

lemma Advance_loop_iter:
  "t < step \<Longrightarrow> Advance_loop upd stepsize step t cam =
     Advance_loop upd stepsize step (t + min stepsize (step - t)) (upd step cam)"
  by (subst Advance_loop.simps) (simp add: Let_def)

lemma Advance_loop_substeps_done:
  "\<not> t < step \<Longrightarrow> Advance_loop_substeps upd stepsize step t cam = Some cam"
  by (subst Advance_loop_substeps.simps) simp

lemma Advance_loop_substeps_iter:
  "t < step \<Longrightarrow> Advance_loop_substeps upd stepsize step t cam =
     Advance_loop_substeps upd stepsize step (t + min stepsize (step - t))
       (upd (min stepsize (step - t)) cam)"
  by (subst Advance_loop_substeps.simps) (simp add: Let_def)

text \<open>One more iteration is one more unit in the ceiling of what is left.\<close>

lemma ceiling_step:
  fixes a s :: real
  assumes "0 < s" "0 < a"
  shows "nat \<lceil>a / s\<rceil> = Suc (nat \<lceil>(a - min s a) / s\<rceil>)"
proof (cases "s \<le> a")
  case True
  have "(a - s) / s = a / s - 1" using assms by (simp add: field_simps)
  moreover have "1 \<le> a / s" using True assms by simp
  hence "1 \<le> \<lceil>a / s\<rceil>" by linarith
  ultimately show ?thesis using True by (simp add: min_def) linarith
next
  case False
  hence "a / s < 1" "0 < a / s" using assms by simp_all
  hence "\<lceil>a / s\<rceil> = 1" by linarith
  thus ?thesis using False by (simp add: min_def)
qed

text \<open>
  With a positive step size the loop returns, after as many iterations as the ceiling
  of what is left over the step size, and every iteration calls the update with the
  whole \<open>step\<close>.
\<close>

lemma Advance_loop_funpow:
  assumes "0 < stepsize"
  shows "Advance_loop upd stepsize step t cam =
    Some ((upd step ^^ nat \<lceil>(step - t) / stepsize\<rceil>) cam)"
proof (induction "nat \<lceil>(step - t) / stepsize\<rceil>" arbitrary: t cam)
  case 0
  have "\<not> t < step"
  proof
    assume "t < step"
    hence "0 < (step - t) / stepsize" using assms by simp
    hence "0 < \<lceil>(step - t) / stepsize\<rceil>" by linarith
    with 0 show False by simp
  qed
  thus ?case using 0 by (simp add: Advance_loop_done)
next
  case (Suc n)
  have lt: "t < step"
  proof (rule ccontr)
    assume "\<not> t < step"
    hence "(step - t) / stepsize \<le> 0" using assms by (simp add: divide_nonneg_pos field_simps)
    hence "\<lceil>(step - t) / stepsize\<rceil> \<le> 0" by linarith
    with Suc(2) show False by simp
  qed
  let ?h = "min stepsize (step - t)"
  have c: "nat \<lceil>(step - t) / stepsize\<rceil> = Suc (nat \<lceil>(step - t - ?h) / stepsize\<rceil>)"
    using ceiling_step[OF assms, of "step - t"] lt by simp
  have e: "step - (t + ?h) = step - t - ?h" by simp
  have n: "n = nat \<lceil>(step - (t + ?h)) / stepsize\<rceil>"
    using Suc(2) c unfolding e by linarith
  have "Advance_loop upd stepsize step (t + ?h) (upd step cam) =
        Some ((upd step ^^ n) (upd step cam))"
    using Suc(1)[OF n] n by simp
  thus ?case using lt Suc(2)[symmetric] by (simp add: Advance_loop_iter funpow_swap1)
qed

text \<open>
  A step size that is not positive never moves \<open>t\<close>: if the loop is entered, it does
  not return.
\<close>

lemma Advance_loop_returns_moves:
  assumes "Advance_loop upd stepsize step t cam = Some y"
  shows "\<not> (stepsize \<le> 0 \<and> t < step)"
proof (rule Advance_loop.raw_induct[where
      P="\<lambda>upd stepsize step t cam y. \<not> (stepsize \<le> 0 \<and> t < step)", OF _ assms])
  fix f :: "(real \<Rightarrow> 'a \<Rightarrow> 'a) \<Rightarrow> real \<Rightarrow> real \<Rightarrow> real \<Rightarrow> 'a \<Rightarrow> 'a option"
    and upd stepsize step t cam y
  assume IH: "\<And>upd stepsize step t cam y. f upd stepsize step t cam = Some y
      \<Longrightarrow> \<not> (stepsize \<le> 0 \<and> t < step)"
    and eq: "(if t < step
      then let h = min stepsize (step - t) in f upd stepsize step (t + h) (upd step cam)
      else Some cam) = Some y"
  show "\<not> (stepsize \<le> 0 \<and> t < step)"
  proof
    assume a: "stepsize \<le> 0 \<and> t < step"
    hence m: "t + min stepsize (step - t) < step" by (simp add: min_def)
    from eq a have "f upd stepsize step (t + min stepsize (step - t)) (upd step cam) = Some y"
      by (simp add: Let_def)
    from IH[OF this] a m show False by simp
  qed
qed

lemma Advance_loop_stuck:
  assumes "stepsize \<le> 0" "t < step"
  shows "Advance_loop upd stepsize step t cam = None"
  using Advance_loop_returns_moves[of upd stepsize step t cam] assms
  by (cases "Advance_loop upd stepsize step t cam") auto

section \<open>Facts about the recording collaborators and the sound block\<close>

lemma app0_fields:
  "m_camera app0 = [Initialize_call (ChVector 0 0 1) 6 (1 / 2)]"
  "m_stepsize app0 = 1 / 1000"
  "m_car app0 = 0"
  "m_powertrain app0 = 0"
  "m_car_sound app0 = None"
  "camera app0 =
    \<lparr>UpVector = vector3df 0 0 1, Position = vector3df 1 0 0, Target = vector3df 0 0 1\<rparr>"
  by (simp_all add: app0_def ChVehicleIrrApp_new_def recorder_def Let_def to_vector3df_def)

lemma recorder_fields:
  "GetChassis recorder = (\<lambda>car. ())"
  "Update recorder = (\<lambda>body h cam. cam @ [Update_call h])"
  "GetCameraPos recorder = (\<lambda>cam. ChVector (real (length cam)) 0 0)"
  "GetTargetPos recorder = (\<lambda>cam. ChVector 0 0 1)"
  "f32 recorder = (\<lambda>r. r)"
  "CHRONO_IRRKLANG recorder = True"
  "GetMotorSpeed recorder = (\<lambda>w. w)"
  "CH_C_2PI recorder = 2 * pi"
  "Zoom recorder = (\<lambda>body v cam. cam @ [Zoom_call v])"
  "Turn recorder = (\<lambda>body v cam. cam @ [Turn_call v])"
  "SetState recorder = (\<lambda>body m cam. cam @ [SetState_call m])"
  "LogConstraintViolations recorder = Suc"
  by (simp_all add: recorder_def)

text \<open>The sound block touches the counter and the sound only.\<close>

lemma update_sound_keeps:
  "m_camera (snd (update_sound ext s)) = m_camera (snd s)"
  "camera (snd (update_sound ext s)) = camera (snd s)"
  "m_stepsize (snd (update_sound ext s)) = m_stepsize (snd s)"
  "m_car (snd (update_sound ext s)) = m_car (snd s)"
  "m_powertrain (snd (update_sound ext s)) = m_powertrain (snd s)"
  by (cases s; simp add: update_sound_def Let_def split: option.splits)+

text \<open>\<^verbatim>\<open>Advance\<close> once its loop has returned.\<close>

lemma Advance_Some:
  "Advance_loop (Update ext (GetChassis ext (m_car app))) (m_stepsize app) step 0 (m_camera app)
     = Some cam
   \<Longrightarrow> Advance ext step (c, app) =
       Some (update_sound ext (c, app\<lparr>m_camera := cam,
         camera := (camera app)\<lparr>Position := to_vector3df (f32 ext) (GetCameraPos ext cam),
                                Target := to_vector3df (f32 ext) (GetTargetPos ext cam)\<rparr>\<rparr>))"
  by (simp add: Advance_def Let_def)

text \<open>
  A camera that is nothing but its own elapsed time: an update by \<open>h\<close> adds \<open>h\<close>.
\<close>

lemma funpow_add_real: "((\<lambda>c. c + a) ^^ n) (c::real) = c + of_nat n * a"
  by (induction n) (simp_all add: algebra_simps)

lemma elapsed_one: "Advance_loop (\<lambda>h c. c + h) (1 / 1000) 1 0 (0::real) = Some 1000"
  by (simp add: Advance_loop_funpow funpow_add_real)

lemma elapsed_tenth:
  "Advance_loop (\<lambda>h c. c + h) (1 / 1000) (1 / 10) 0 (c::real) = Some (c + 10)"
  by (simp add: Advance_loop_funpow funpow_add_real)

section \<open>C1: the sub-steps\<close>

text \<open>
  C1. The specification: \<^verbatim>\<open>Advance(step)\<close> cuts \<open>step\<close> into sub-increments no larger than
  \<^verbatim>\<open>m_stepsize\<close>, advances the camera by one sub-increment per iteration and so
  consumes the step exactly; one call with 1.0 then ends where ten calls with 0.1 end.

  The code runs the right number of iterations but calls \<^verbatim>\<open>m_camera.Update(step)\<close> in
  each of them, where the increment is \<^verbatim>\<open>h\<close>. On a step of 1/400 with the
  constructor's step size 1/1000 the camera receives three updates by 1/400 (the
  specification's rule gives updates by 1/1000, 1/1000 and 1/2000). For a camera that
  is its own elapsed time, one call with step 1 advances it by 1000, and ten calls with
  step 1/10 advance it by 100.
\<close>

theorem C1_Advance_updates_by_whole_step:
  "map_option (\<lambda>s. m_camera (snd s)) (Advance recorder (1 / 400) (0, app0)) =
     Some [Initialize_call (ChVector 0 0 1) 6 (1 / 2),
           Update_call (1 / 400), Update_call (1 / 400), Update_call (1 / 400)]
   \<and> Advance_loop_substeps (Update recorder ()) (1 / 1000) (1 / 400) 0 (m_camera app0) =
     Some [Initialize_call (ChVector 0 0 1) 6 (1 / 2),
           Update_call (1 / 1000), Update_call (1 / 1000), Update_call (1 / 2000)]
   \<and> Advance_loop (\<lambda>h c. c + h) (1 / 1000) 1 0 (0::real) = Some 1000
   \<and> ((\<lambda>c. Option.bind c (Advance_loop (\<lambda>h c. c + h) (1 / 1000) (1 / 10) 0)) ^^ 10)
        (Some (0::real)) = Some 100"
proof (intro conjI)
  show "map_option (\<lambda>s. m_camera (snd s)) (Advance recorder (1 / 400) (0, app0)) =
     Some [Initialize_call (ChVector 0 0 1) 6 (1 / 2),
           Update_call (1 / 400), Update_call (1 / 400), Update_call (1 / 400)]"
    by (simp add: Advance_def app0_fields recorder_fields Advance_loop_iter Advance_loop_done
        update_sound_keeps Let_def)
  show "Advance_loop_substeps (Update recorder ()) (1 / 1000) (1 / 400) 0 (m_camera app0) =
     Some [Initialize_call (ChVector 0 0 1) 6 (1 / 2),
           Update_call (1 / 1000), Update_call (1 / 1000), Update_call (1 / 2000)]"
    by (simp add: app0_fields recorder_fields Advance_loop_substeps_iter
        Advance_loop_substeps_done)
  show "Advance_loop (\<lambda>h c. c + h) (1 / 1000) 1 0 (0::real) = Some 1000"
    by (rule elapsed_one)
  show "((\<lambda>c. Option.bind c (Advance_loop (\<lambda>h c. c + h) (1 / 1000) (1 / 10) 0)) ^^ 10)
        (Some (0::real)) = Some 100"
    by (simp add: elapsed_tenth eval_nat_numeral)
qed

section \<open>C2: the loop ends\<close>



section \<open>C3: a step of zero\<close>

text \<open>
  C3. With \<open>step = 0\<close> the loop body is not run (the loop returns the camera it was
  given, whatever the update and the step size are), the call returns, the chase
  camera is as before, and the camera node receives the position and the target that
  this unchanged camera reports.
\<close>

theorem C3_Advance_zero:
  "Advance_loop upd stepsize 0 0 cam = Some cam
   \<and> (\<exists>c' app'. Advance ext 0 (c, app) = Some (c', app')
        \<and> m_camera app' = m_camera app
        \<and> Position (camera app') = to_vector3df (f32 ext) (GetCameraPos ext (m_camera app))
        \<and> Target (camera app') = to_vector3df (f32 ext) (GetTargetPos ext (m_camera app)))"
proof -
  let ?app1 = "app\<lparr>m_camera := m_camera app,
         camera := (camera app)\<lparr>Position := to_vector3df (f32 ext) (GetCameraPos ext (m_camera app)),
                                Target := to_vector3df (f32 ext) (GetTargetPos ext (m_camera app))\<rparr>\<rparr>"
  have l1: "Advance_loop upd stepsize 0 0 cam = Some cam"
    by (simp add: Advance_loop_done)
  have l: "Advance_loop (Update ext (GetChassis ext (m_car app))) (m_stepsize app) 0 0
             (m_camera app) = Some (m_camera app)"
    by (simp add: Advance_loop_done)
  obtain c' app' where s: "update_sound ext (c, ?app1) = (c', app')"
    by (cases "update_sound ext (c, ?app1)")
  have a: "Advance ext 0 (c, app) = Some (c', app')"
    using Advance_Some[OF l, where c=c] s by simp
  have "app' = snd (update_sound ext (c, ?app1))"
    using s by simp
  hence "m_camera app' = m_camera app
        \<and> Position (camera app') = to_vector3df (f32 ext) (GetCameraPos ext (m_camera app))
        \<and> Target (camera app') = to_vector3df (f32 ext) (GetTargetPos ext (m_camera app))"
    by (simp add: update_sound_keeps)
  with a l1 show ?thesis by auto
qed

theorem C3_Advance_zero_witness:
  "Advance recorder 0 (0, app0) = Some (0, app0)"
  using C3_Advance_zero[where upd="Update recorder ()" and stepsize="1 / 1000"
      and cam="m_camera app0" and ext=recorder and c=0 and app=app0]
  by (simp add: Advance_def app0_fields recorder_fields update_sound_def Let_def
      to_vector3df_def)

section \<open>C4: the camera trajectory depends on the camera, the step size and the frames\<close>

lemma app_idle_fields:
  "m_camera app_idle = [Initialize_call (ChVector 0 0 1) 6 (1 / 2)]"
  "m_stepsize app_idle = 1 / 1000"
  "m_car app_idle = 0"
  "m_powertrain app_idle = 0"
  "m_car_sound app_idle = Some \<lparr>IsPaused = True, PlaybackSpeed = 1\<rparr>"
  "camera app_idle =
    \<lparr>UpVector = vector3df 0 0 1, Position = vector3df 1 0 0, Target = vector3df 0 0 1\<rparr>"
  by (simp_all add: app_idle_def EnableSound_def recorder_fields app0_fields)

text \<open>
  One call on two applications that agree on the camera, the step size and the vehicle:
  both calls fail to return, or both return, with the same camera, step size, and
  position and target of the camera node.
\<close>

lemma Advance_agree:
  assumes "m_camera a = m_camera b" "m_stepsize a = m_stepsize b" "m_car a = m_car b"
  shows "(Advance ext step (c1, a) = None \<and> Advance ext step (c2, b) = None)
    \<or> (\<exists>s1 s2. Advance ext step (c1, a) = Some s1 \<and> Advance ext step (c2, b) = Some s2
          \<and> m_camera (snd s1) = m_camera (snd s2)
          \<and> m_stepsize (snd s1) = m_stepsize (snd s2)
          \<and> Position (camera (snd s1)) = Position (camera (snd s2))
          \<and> Target (camera (snd s1)) = Target (camera (snd s2)))"
proof (cases "Advance_loop (Update ext (GetChassis ext (m_car b))) (m_stepsize b) step 0
    (m_camera b)")
  case None
  thus ?thesis using assms by (simp add: Advance_def)
next
  case (Some cam)
  have "Advance_loop (Update ext (GetChassis ext (m_car a))) (m_stepsize a) step 0 (m_camera a)
    = Some cam" using Some assms by simp
  from Advance_Some[OF this, where c=c1] Advance_Some[OF Some, where c=c2] assms
  show ?thesis by (simp add: update_sound_keeps)
qed

text \<open>
  C4. Determinism. Two runs that start from the same chase camera and the same step size
  and make the same sequence of \<^verbatim>\<open>Advance(step)\<close> calls on the same sequence of vehicle
  frames produce the same sequence of camera positions and targets (those of the
  controller and those given to the camera node), whatever else differs between them:
  the static sound counter, the sound, the powertrain, the rendering flags. The camera's
  \<^verbatim>\<open>Update\<close> is a function of the chassis body, its argument and the camera.
\<close>

theorem C4_Advance_deterministic:
  assumes "m_camera a = m_camera b" "m_stepsize a = m_stepsize b"
  shows "Advance_run ext frames (c1, a) = Advance_run ext frames (c2, b)"
  using assms
proof (induction frames arbitrary: a b c1 c2)
  case Nil
  show ?case by simp
next
  case (Cons frame rest)
  let ?a = "a\<lparr>m_car := snd frame\<rparr>" and ?b = "b\<lparr>m_car := snd frame\<rparr>"
  have h: "m_camera ?a = m_camera ?b" "m_stepsize ?a = m_stepsize ?b" "m_car ?a = m_car ?b"
    using Cons.prems by simp_all
  from Advance_agree[OF h, of ext "fst frame" c1 c2]
  show ?case
  proof
    assume "Advance ext (fst frame) (c1, ?a) = None \<and> Advance ext (fst frame) (c2, ?b) = None"
    thus ?case by simp
  next
    assume "\<exists>s1 s2. Advance ext (fst frame) (c1, ?a) = Some s1
          \<and> Advance ext (fst frame) (c2, ?b) = Some s2
          \<and> m_camera (snd s1) = m_camera (snd s2)
          \<and> m_stepsize (snd s1) = m_stepsize (snd s2)
          \<and> Position (camera (snd s1)) = Position (camera (snd s2))
          \<and> Target (camera (snd s1)) = Target (camera (snd s2))"
    then obtain s1 s2 where s: "Advance ext (fst frame) (c1, ?a) = Some s1"
       "Advance ext (fst frame) (c2, ?b) = Some s2"
       "m_camera (snd s1) = m_camera (snd s2)"
       "m_stepsize (snd s1) = m_stepsize (snd s2)"
       "Position (camera (snd s1)) = Position (camera (snd s2))"
       "Target (camera (snd s1)) = Target (camera (snd s2))" by blast
    have "Advance_run ext rest (fst s1, snd s1) = Advance_run ext rest (fst s2, snd s2)"
      by (rule Cons.IH[OF s(3) s(4)])
    thus ?case using s by (simp split: option.splits)
  qed
qed

theorem C4_Advance_deterministic_witness:
  "m_camera (app_idle\<lparr>m_powertrain := 1000, m_renderGrid := False\<rparr>) = m_camera app0
   \<and> m_stepsize (app_idle\<lparr>m_powertrain := 1000, m_renderGrid := False\<rparr>) = m_stepsize app0
   \<and> Advance_run recorder [(1 / 400, 3), (0, 4), (1 / 1000, 5)] (0, app0) =
      Some [(ChVector 4 0 0, ChVector 0 0 1, vector3df 4 0 0, vector3df 0 0 1),
            (ChVector 4 0 0, ChVector 0 0 1, vector3df 4 0 0, vector3df 0 0 1),
            (ChVector 5 0 0, ChVector 0 0 1, vector3df 5 0 0, vector3df 0 0 1)]
   \<and> Advance_run recorder [(1 / 400, 3), (0, 4), (1 / 1000, 5)]
        (20, app_idle\<lparr>m_powertrain := 1000, m_renderGrid := False\<rparr>) =
      Advance_run recorder [(1 / 400, 3), (0, 4), (1 / 1000, 5)] (0, app0)"
  using C4_Advance_deterministic[where a="app_idle\<lparr>m_powertrain := 1000, m_renderGrid := False\<rparr>"
      and b=app0 and ext=recorder
      and frames="[(1 / 400, 3), (0, 4), (1 / 1000, 5)]" and ?c1.0=20 and ?c2.0=0]
  by (simp add: app0_fields app_idle_fields Advance_def recorder_fields Advance_loop_iter
      Advance_loop_done update_sound_keeps Let_def to_vector3df_def)

section \<open>C5: which events issue which camera command\<close>

text \<open>
  C5, as amended. The receiver maps keyboard events to the camera commands
  \<^verbatim>\<open>Zoom(+1)\<close>, \<^verbatim>\<open>Zoom(-1)\<close>, \<^verbatim>\<open>Turn(+1)\<close>, \<^verbatim>\<open>Turn(-1)\<close> and \<^verbatim>\<open>SetState(mode)\<close>. The arrow
  keys issue theirs when pressed (Down: \<^verbatim>\<open>Zoom(1)\<close>, Up: \<^verbatim>\<open>Zoom(-1)\<close>, Left:
  \<^verbatim>\<open>Turn(1)\<close>, Right: \<^verbatim>\<open>Turn(-1)\<close>), one call per event. The mode keys 1 to 4 issue
  \<^verbatim>\<open>SetState\<close> of Chase, Follow, Track and Inside, one key per state, when the key is
  released. No other event changes the camera.
\<close>

theorem C5_OnEvent_commands:
  "OnEvent ext (key_event KEY_DOWN True) app
     = (True, app\<lparr>m_camera := Zoom ext (GetChassis ext (m_car app)) 1 (m_camera app)\<rparr>)
   \<and> OnEvent ext (key_event KEY_UP True) app
     = (True, app\<lparr>m_camera := Zoom ext (GetChassis ext (m_car app)) (- 1) (m_camera app)\<rparr>)
   \<and> OnEvent ext (key_event KEY_LEFT True) app
     = (True, app\<lparr>m_camera := Turn ext (GetChassis ext (m_car app)) 1 (m_camera app)\<rparr>)
   \<and> OnEvent ext (key_event KEY_RIGHT True) app
     = (True, app\<lparr>m_camera := Turn ext (GetChassis ext (m_car app)) (- 1) (m_camera app)\<rparr>)
   \<and> OnEvent ext (key_event KEY_KEY_1 False) app
     = (True, app\<lparr>m_camera := SetState ext (GetChassis ext (m_car app)) Chase (m_camera app)\<rparr>)
   \<and> OnEvent ext (key_event KEY_KEY_2 False) app
     = (True, app\<lparr>m_camera := SetState ext (GetChassis ext (m_car app)) Follow (m_camera app)\<rparr>)
   \<and> OnEvent ext (key_event KEY_KEY_3 False) app
     = (True, app\<lparr>m_camera := SetState ext (GetChassis ext (m_car app)) Track (m_camera app)\<rparr>)
   \<and> OnEvent ext (key_event KEY_KEY_4 False) app
     = (True, app\<lparr>m_camera := SetState ext (GetChassis ext (m_car app)) Inside (m_camera app)\<rparr>)
   \<and> (m_camera (snd (OnEvent ext ev app)) \<noteq> m_camera app \<longrightarrow>
        EventType ev = EET_KEY_INPUT_EVENT
        \<and> (if PressedDown (KeyInput ev)
            then Key (KeyInput ev) \<in> {KEY_DOWN, KEY_UP, KEY_LEFT, KEY_RIGHT}
            else Key (KeyInput ev) \<in> {KEY_KEY_1, KEY_KEY_2, KEY_KEY_3, KEY_KEY_4}))"
proof -
  have table: "OnEvent ext (key_event KEY_DOWN True) app
     = (True, app\<lparr>m_camera := Zoom ext (GetChassis ext (m_car app)) 1 (m_camera app)\<rparr>)
   \<and> OnEvent ext (key_event KEY_UP True) app
     = (True, app\<lparr>m_camera := Zoom ext (GetChassis ext (m_car app)) (- 1) (m_camera app)\<rparr>)
   \<and> OnEvent ext (key_event KEY_LEFT True) app
     = (True, app\<lparr>m_camera := Turn ext (GetChassis ext (m_car app)) 1 (m_camera app)\<rparr>)
   \<and> OnEvent ext (key_event KEY_RIGHT True) app
     = (True, app\<lparr>m_camera := Turn ext (GetChassis ext (m_car app)) (- 1) (m_camera app)\<rparr>)
   \<and> OnEvent ext (key_event KEY_KEY_1 False) app
     = (True, app\<lparr>m_camera := SetState ext (GetChassis ext (m_car app)) Chase (m_camera app)\<rparr>)
   \<and> OnEvent ext (key_event KEY_KEY_2 False) app
     = (True, app\<lparr>m_camera := SetState ext (GetChassis ext (m_car app)) Follow (m_camera app)\<rparr>)
   \<and> OnEvent ext (key_event KEY_KEY_3 False) app
     = (True, app\<lparr>m_camera := SetState ext (GetChassis ext (m_car app)) Track (m_camera app)\<rparr>)
   \<and> OnEvent ext (key_event KEY_KEY_4 False) app
     = (True, app\<lparr>m_camera := SetState ext (GetChassis ext (m_car app)) Inside (m_camera app)\<rparr>)"
    by (simp add: OnEvent_def Let_def)
  have others: "m_camera (snd (OnEvent ext ev app)) \<noteq> m_camera app \<longrightarrow>
        EventType ev = EET_KEY_INPUT_EVENT
        \<and> (if PressedDown (KeyInput ev)
            then Key (KeyInput ev) \<in> {KEY_DOWN, KEY_UP, KEY_LEFT, KEY_RIGHT}
            else Key (KeyInput ev) \<in> {KEY_KEY_1, KEY_KEY_2, KEY_KEY_3, KEY_KEY_4})"
    by (cases "Key (KeyInput ev)") (simp_all add: OnEvent_def Let_def)
  from table others show ?thesis by blast
qed

text \<open>
  The specification has the mode keys act on key-press events as well. Pressing the
  key 1 is not handled and leaves the camera without a \<^verbatim>\<open>SetState\<close> call; releasing it
  issues \<^verbatim>\<open>SetState(Chase)\<close>.
\<close>

theorem C5_mode_key_press_counterexample:
  "OnEvent recorder (key_event KEY_KEY_1 True) app0 = (False, app0)
   \<and> m_camera (snd (OnEvent recorder (key_event KEY_KEY_1 True) app0))
       \<noteq> SetState recorder () Chase (m_camera app0)
   \<and> OnEvent recorder (key_event KEY_KEY_1 False) app0
       = (True, app0\<lparr>m_camera := SetState recorder () Chase (m_camera app0)\<rparr>)"
  by (simp add: OnEvent_def app0_fields recorder_fields Let_def)

theorem C5_OnEvent_commands_witness:
  "m_camera (snd (OnEvent recorder (key_event KEY_KEY_2 False) app0)) \<noteq> m_camera app0
   \<and> OnEvent recorder (key_event KEY_KEY_2 False) app0
       = (True, app0\<lparr>m_camera :=
            [Initialize_call (ChVector 0 0 1) 6 (1 / 2), SetState_call Follow]\<rparr>)
   \<and> OnEvent recorder (key_event KEY_DOWN True) app0
       = (True, app0\<lparr>m_camera :=
            [Initialize_call (ChVector 0 0 1) 6 (1 / 2), Zoom_call 1]\<rparr>)"
  using C5_OnEvent_commands[where ext=recorder and app=app0 and ev="key_event KEY_KEY_2 False"]
  by (simp add: app0_fields recorder_fields)

section \<open>C6: the modes\<close>

lemma State_UNIV: "(UNIV :: State set) = {Chase, Follow, Track, Inside}"
proof -
  have "m \<in> {Chase, Follow, Track, Inside}" for m by (cases m) simp_all
  thus ?thesis by blast
qed

lemma state_label_inj: "inj state_label"
proof (rule injI)
  fix a b assume "state_label a = state_label b"
  thus "a = b" by (cases a; cases b) simp_all
qed

text \<open>
  C6. Mode closure, on the controller of the specification: a mode is one of Chase,
  Follow, Track and Inside; the controller has exactly one mode; after any sequence of
  \<^verbatim>\<open>SetState\<close> calls the mode is the one set last and \<^verbatim>\<open>GetStateName\<close> returns its
  label; different modes have different labels. With this controller as the camera,
  releasing one of the keys 1 to 4 makes the HUD show the mode of that key.
\<close>

theorem C6_mode_closure:
  "(UNIV :: State set) = {Chase, Follow, Track, Inside}
   \<and> (\<exists>!m. mode c = m)
   \<and> mode (foldl (\<lambda>c m. SetState_spec m c) c (ms @ [m])) = m
   \<and> GetStateName_spec (foldl (\<lambda>c m. SetState_spec m c) c (ms @ [m])) = state_label m
   \<and> inj state_label
   \<and> renderStats_camera_mode (with_spec_camera ext)
        (snd (OnEvent (with_spec_camera ext) (key_event KEY_KEY_1 False) app))
       = ''Camera mode: Chase''
   \<and> renderStats_camera_mode (with_spec_camera ext)
        (snd (OnEvent (with_spec_camera ext) (key_event KEY_KEY_2 False) app))
       = ''Camera mode: Follow''
   \<and> renderStats_camera_mode (with_spec_camera ext)
        (snd (OnEvent (with_spec_camera ext) (key_event KEY_KEY_3 False) app))
       = ''Camera mode: Track''
   \<and> renderStats_camera_mode (with_spec_camera ext)
        (snd (OnEvent (with_spec_camera ext) (key_event KEY_KEY_4 False) app))
       = ''Camera mode: Inside''"
  using state_label_inj
  by (simp add: State_UNIV GetStateName_spec_def SetState_spec_def OnEvent_def Let_def
      renderStats_camera_mode_def with_spec_camera_def)

theorem C6_mode_closure_witness:
  "GetStateName_spec (foldl (\<lambda>c m. SetState_spec m c) controller0 [Track, Follow, Inside])
     = ''Inside''
   \<and> mode (foldl (\<lambda>c m. SetState_spec m c) controller0 [Track, Follow, Inside]) = Inside
   \<and> renderStats_camera_mode spec_collaborators
        (snd (OnEvent spec_collaborators (key_event KEY_KEY_3 False)
               (ChVehicleIrrApp_new spec_collaborators 0 0)))
       = ''Camera mode: Track''"
proof -
  have w: "with_spec_camera spec_collaborators = spec_collaborators"
    by (simp add: with_spec_camera_def spec_collaborators_def)
  show ?thesis
    using C6_mode_closure[where c=controller0 and ms="[Track, Follow]" and m=Inside
        and ext=spec_collaborators and app="ChVehicleIrrApp_new spec_collaborators 0 0"]
    unfolding w by simp
qed

section \<open>C7: the application after construction\<close>

text \<open>
  C7. After construction the chase camera is the newly made camera after one
  \<^verbatim>\<open>Initialize\<close> with the point (0, 0, 1), the vehicle's local driver coordinate system,
  the distance 6.0 and the height 0.5; the position and the target it reports have been
  given to the camera node, whose up vector is (0, 0, 1). The constructor calls no
  \<^verbatim>\<open>Update\<close>.
\<close>

theorem C7_constructor:
  "m_camera (ChVehicleIrrApp_new ext car powertrain)
     = Initialize ext (GetChassis ext car) (ChVector 0 0 1) (GetLocalDriverCoordsys ext car)
         6 (1 / 2) (ChChaseCamera ext (GetChassis ext car))
   \<and> Position (camera (ChVehicleIrrApp_new ext car powertrain))
     = to_vector3df (f32 ext)
         (GetCameraPos ext (m_camera (ChVehicleIrrApp_new ext car powertrain)))
   \<and> Target (camera (ChVehicleIrrApp_new ext car powertrain))
     = to_vector3df (f32 ext)
         (GetTargetPos ext (m_camera (ChVehicleIrrApp_new ext car powertrain)))
   \<and> UpVector (camera (ChVehicleIrrApp_new ext car powertrain)) = vector3df 0 0 1"
  by (simp add: ChVehicleIrrApp_new_def Let_def)

theorem C7_constructor_witness:
  "m_camera (ChVehicleIrrApp_new recorder 0 0) = [Initialize_call (ChVector 0 0 1) 6 (1 / 2)]
   \<and> Position (camera (ChVehicleIrrApp_new recorder 0 0)) = vector3df 1 0 0
   \<and> Target (camera (ChVehicleIrrApp_new recorder 0 0)) = vector3df 0 0 1"
  using C7_constructor[where ext=recorder and car=0 and powertrain=0]
  by (simp add: recorder_def to_vector3df_def)

section \<open>C8: zooming\<close>







section \<open>C9: the sound update and its counter\<close>

text \<open>The sound block when the application has a sound.\<close>

lemma update_sound_on:
  assumes "CHRONO_IRRKLANG ext" "m_car_sound app = Some snd0"
  shows "update_sound ext (c, app) =
    (if 20 < c + 1
     then (0, app\<lparr>m_car_sound := Some (snd0\<lparr>IsPaused := False,
                PlaybackSpeed := f32 ext (max (1 / 10)
                  (GetMotorSpeed ext (m_powertrain app) * 60 / CH_C_2PI ext / 8000))\<rparr>)\<rparr>)
     else (c + 1, app))"
proof -
  have m: "(if x < 1 / 10 then 1 / 10 else x) = max (1 / 10) x" for x :: real
    by (simp add: max_def)
  have p: "(if IsPaused snd0 then snd0\<lparr>IsPaused := False\<rparr> else snd0)
      = snd0\<lparr>IsPaused := False\<rparr>"
    by simp
  show ?thesis
    unfolding update_sound_def Let_def m p using assms by simp
qed

text \<open>
  C9. With \<^verbatim>\<open>CHRONO_IRRKLANG\<close> defined and a sound present, a call of \<^verbatim>\<open>Advance\<close> that
  returns has incremented the static counter, which is kept outside the application
  objects and so is the same for all of them. The counter is between 0 and 20 before
  the call, as it is from its initial 0 on. If the incremented counter exceeds 20, the
  counter is reset to 0, the sound is not paused any more and its playback speed is the
  cast of the engine speed in rpm over 8000, raised to 1/10 if it is less: the cast of a
  value of at least 1/10, and so at least the cast of 1/10 when the cast is monotone.
  Otherwise the sound is as before and the counter is one more. The counter is between
  0 and 20 after the call.
\<close>

theorem C9_sound_update:
  assumes "CHRONO_IRRKLANG ext" "m_car_sound app = Some snd0"
    and "Advance ext step (c, app) = Some (c', app')"
    and "0 \<le> c" "c \<le> 20"
  shows "\<exists>snd'. m_car_sound app' = Some snd'
    \<and> (if 20 < c + 1
        then c' = 0 \<and> \<not> IsPaused snd'
          \<and> PlaybackSpeed snd' = f32 ext (max (1 / 10)
               (GetMotorSpeed ext (m_powertrain app) * 60 / CH_C_2PI ext / 8000))
          \<and> (\<exists>v. 1 / 10 \<le> v \<and> PlaybackSpeed snd' = f32 ext v)
          \<and> (mono (f32 ext) \<longrightarrow> f32 ext (1 / 10) \<le> PlaybackSpeed snd')
        else c' = c + 1 \<and> snd' = snd0)
    \<and> 0 \<le> c' \<and> c' \<le> 20"
proof -
  obtain cam where l: "Advance_loop (Update ext (GetChassis ext (m_car app))) (m_stepsize app)
      step 0 (m_camera app) = Some cam"
    using assms(3) by (cases "Advance_loop (Update ext (GetChassis ext (m_car app)))
      (m_stepsize app) step 0 (m_camera app)") (simp_all add: Advance_def)
  define app1 where "app1 = app\<lparr>m_camera := cam,
         camera := (camera app)\<lparr>Position := to_vector3df (f32 ext) (GetCameraPos ext cam),
                                Target := to_vector3df (f32 ext) (GetTargetPos ext cam)\<rparr>\<rparr>"
  define v where
    "v = max (1 / 10) (GetMotorSpeed ext (m_powertrain app) * 60 / CH_C_2PI ext / 8000)"
  have s: "m_car_sound app1 = Some snd0" and pt: "m_powertrain app1 = m_powertrain app"
    using assms(2) by (simp_all add: app1_def)
  have "Advance ext step (c, app) = Some (update_sound ext (c, app1))"
    unfolding app1_def by (rule Advance_Some[OF l])
  hence u: "update_sound ext (c, app1) = (c', app')"
    using assms(3) by simp
  have v: "1 / 10 \<le> v" by (simp add: v_def)
  show ?thesis
  proof (cases "20 < c + 1")
    case True
    have "update_sound ext (c, app1) =
        (0, app1\<lparr>m_car_sound :=
               Some (snd0\<lparr>IsPaused := False, PlaybackSpeed := f32 ext v\<rparr>)\<rparr>)"
      using update_sound_on[OF assms(1) s, of c] True by (simp add: v_def pt)
    hence c': "c' = 0"
      and a': "app' = app1\<lparr>m_car_sound :=
                 Some (snd0\<lparr>IsPaused := False, PlaybackSpeed := f32 ext v\<rparr>)\<rparr>"
      using u by simp_all
    have r: "m_car_sound app' = Some (snd0\<lparr>IsPaused := False, PlaybackSpeed := f32 ext v\<rparr>)"
      unfolding a' by simp
    have m: "mono (f32 ext) \<longrightarrow> f32 ext (1 / 10) \<le> f32 ext v"
      using v by (blast dest: monoD)
    have e: "\<exists>w. 1 / 10 \<le> w \<and> f32 ext v = f32 ext w" using v by blast
    show ?thesis
      apply (rule exI[of _ "snd0\<lparr>IsPaused := False, PlaybackSpeed := f32 ext v\<rparr>"])
      using True c' r m e by (simp add: v_def)
  next
    case False
    have "update_sound ext (c, app1) = (c + 1, app1)"
      using update_sound_on[OF assms(1) s, of c] False by simp
    hence "c' = c + 1" "app' = app1" using u by simp_all
    hence "c' = c + 1" "m_car_sound app' = Some snd0" using s by simp_all
    thus ?thesis using False assms(4) by simp
  qed
qed

theorem C9_sound_update_witness:
  "CHRONO_IRRKLANG recorder
   \<and> m_car_sound app_idle = Some \<lparr>IsPaused = True, PlaybackSpeed = 1\<rparr>
   \<and> map_option (\<lambda>s. (fst s, m_car_sound (snd s))) (Advance recorder 0 (19, app_idle))
       = Some (20, Some \<lparr>IsPaused = True, PlaybackSpeed = 1\<rparr>)
   \<and> map_option (\<lambda>s. (fst s, m_car_sound (snd s)))
        (Advance recorder 0 (20, app_idle\<lparr>m_HUD_x := 5\<rparr>))
       = Some (0, Some \<lparr>IsPaused = False, PlaybackSpeed = 1 / 10\<rparr>)"
proof -
  have l: "Advance_loop (Update recorder (GetChassis recorder (m_car a))) (m_stepsize a) 0 0
             (m_camera a) = Some (m_camera a)" for a :: "(call list, nat, real) ChVehicleIrrApp"
    by (simp add: Advance_loop_done)
  have "\<exists>s. Advance recorder 0 (19, app_idle) = Some s"
    using Advance_Some[OF l[of app_idle], where c=19] by blast
  then obtain c1 a1 where 1: "Advance recorder 0 (19, app_idle) = Some (c1, a1)"
    by (metis surj_pair)
  have "\<exists>s. Advance recorder 0 (20, app_idle\<lparr>m_HUD_x := 5\<rparr>) = Some s"
    using Advance_Some[OF l[of "app_idle\<lparr>m_HUD_x := 5\<rparr>"], where c=20] by blast
  then obtain c2 a2 where
    2: "Advance recorder 0 (20, app_idle\<lparr>m_HUD_x := 5\<rparr>) = Some (c2, a2)"
    by (metis surj_pair)
  have k: "CHRONO_IRRKLANG recorder" by (simp add: recorder_fields)
  have s1: "m_car_sound app_idle = Some \<lparr>IsPaused = True, PlaybackSpeed = 1\<rparr>"
    by (simp add: app_idle_fields)
  have s2: "m_car_sound (app_idle\<lparr>m_HUD_x := 5\<rparr>)
      = Some \<lparr>IsPaused = True, PlaybackSpeed = 1\<rparr>"
    by (simp add: app_idle_fields)
  have p: "m_powertrain (app_idle\<lparr>m_HUD_x := 5\<rparr>) = 0"
    by (simp add: app_idle_fields)
  have r1: "c1 = 20 \<and> m_car_sound a1 = Some \<lparr>IsPaused = True, PlaybackSpeed = 1\<rparr>"
    using C9_sound_update[OF k s1 1] by simp
  obtain snd2 where r2: "m_car_sound a2 = Some snd2" "c2 = 0" "\<not> IsPaused snd2"
      "PlaybackSpeed snd2 = f32 recorder (max (1 / 10)
           (GetMotorSpeed recorder (m_powertrain (app_idle\<lparr>m_HUD_x := 5\<rparr>)) * 60
              / CH_C_2PI recorder / 8000))"
    using C9_sound_update[OF k s2 2] by auto
  have "PlaybackSpeed snd2 = 1 / 10"
    unfolding r2(4) p by (simp add: recorder_fields)
  hence "snd2 = \<lparr>IsPaused = False, PlaybackSpeed = 1 / 10\<rparr>"
    using r2(3) by (cases snd2) simp
  thus ?thesis using 1 2 k s1 r1 r2(1,2) by simp
qed

section \<open>C10: the events that are not handled\<close>

text \<open>
  C10. \<^verbatim>\<open>OnEvent\<close> returns true exactly for the nine handled key events: a keyboard
  event with an arrow key pressed, or with one of the keys 1, 2, 3, 4 and V released.
  For every other event it returns false and the application (the camera and the
  vehicle with it) is as before.
\<close>

theorem C10_OnEvent_unhandled:
  "fst (OnEvent ext ev app) =
     (EventType ev = EET_KEY_INPUT_EVENT
      \<and> (if PressedDown (KeyInput ev)
          then Key (KeyInput ev) \<in> {KEY_DOWN, KEY_UP, KEY_LEFT, KEY_RIGHT}
          else Key (KeyInput ev) \<in> {KEY_KEY_1, KEY_KEY_2, KEY_KEY_3, KEY_KEY_4, KEY_KEY_V}))
   \<and> (\<not> fst (OnEvent ext ev app) \<longrightarrow> snd (OnEvent ext ev app) = app)"
  by (cases "Key (KeyInput ev)") (simp_all add: OnEvent_def Let_def)

theorem C10_OnEvent_unhandled_witness:
  "OnEvent recorder \<lparr>EventType = EET_MOUSE_INPUT_EVENT,
                     KeyInput = \<lparr>Key = KEY_DOWN, PressedDown = True\<rparr>\<rparr> app0 = (False, app0)
   \<and> OnEvent recorder (key_event (KEY_OTHER 65) True) app0 = (False, app0)
   \<and> OnEvent recorder (key_event KEY_UP False) app0 = (False, app0)
   \<and> fst (OnEvent recorder (key_event KEY_KEY_V False) app0)"
  using C10_OnEvent_unhandled[where ext=recorder and app=app0
      and ev="\<lparr>EventType = EET_MOUSE_INPUT_EVENT,
              KeyInput = \<lparr>Key = KEY_DOWN, PressedDown = True\<rparr>\<rparr>"]
    C10_OnEvent_unhandled[where ext=recorder and app=app0 and ev="key_event (KEY_OTHER 65) True"]
    C10_OnEvent_unhandled[where ext=recorder and app=app0 and ev="key_event KEY_UP False"]
    C10_OnEvent_unhandled[where ext=recorder and app=app0 and ev="key_event KEY_KEY_V False"]
  by (simp add: prod_eq_iff)

end
